theory Spec2Isabelle
  imports Main "HOL-Library.Sublist"
begin

section \<open>JavaScript strings\<close>

text \<open>
  A string is a list of 8-bit characters. Node decodes the bytes of a header one character
  per byte, so a header name or value is exactly such a list. Header names are ASCII, and
  \<open>toLowerCase\<close> is \<^verbatim>\<open>String.prototype.toLowerCase\<close> on the letters A-Z; a name with
  any other letter is no key of \<^verbatim>\<open>req.headers\<close>, before or after conversion.
\<close>

definition toLowerCase_char :: "char \<Rightarrow> char" where
  "toLowerCase_char c =
     (if (65::nat) \<le> of_char c \<and> of_char c \<le> (90::nat)
      then (case c of Char b0 b1 b2 b3 b4 b5 b6 b7 \<Rightarrow> Char b0 b1 b2 b3 b4 True b6 b7)
      else c)"

definition toLowerCase :: "string \<Rightarrow> string" where
  "toLowerCase s = map toLowerCase_char s"

text \<open>\<^verbatim>\<open>s.includes(p)\<close>: \<open>p\<close> occurs in \<open>s\<close> as a contiguous run.\<close>

fun includes_str :: "string \<Rightarrow> string \<Rightarrow> bool" where
  "includes_str [] p = (p = [])"
| "includes_str (c # cs) p = (prefix p (c # cs) \<or> includes_str cs p)"

text \<open>
  The text of a chunk of the child's error stream is Unicode text, kept as its UTF-8 bytes;
  an ASCII word occurs in the text exactly when its bytes occur in the UTF-8 bytes.
  \<^verbatim>\<open>String.prototype.toUpperCase\<close> and \<^verbatim>\<open>String.prototype.trim\<close> are built-ins of the
  language that work on all of Unicode; the handler that calls them takes them as
  parameters.
\<close>

record string_builtins =
  js_toUpperCase :: "string \<Rightarrow> string"
  js_trim :: "string \<Rightarrow> string"

text \<open>
  On ASCII text the two built-ins are these: \<^verbatim>\<open>toUpperCase\<close> changes the letters a-z
  only, and \<^verbatim>\<open>trim\<close> removes tab, line feed, vertical tab, form feed, carriage return
  and space from both ends. They stand for the built-ins where a concrete chunk is ASCII.
\<close>

definition ascii_toUpperCase_char :: "char \<Rightarrow> char" where
  "ascii_toUpperCase_char c =
     (if (97::nat) \<le> of_char c \<and> of_char c \<le> (122::nat)
      then (case c of Char b0 b1 b2 b3 b4 b5 b6 b7 \<Rightarrow> Char b0 b1 b2 b3 b4 False b6 b7)
      else c)"

definition ascii_toUpperCase :: "string \<Rightarrow> string" where
  "ascii_toUpperCase s = map ascii_toUpperCase_char s"

definition is_space :: "char \<Rightarrow> bool" where
  "is_space c \<longleftrightarrow> (of_char c :: nat) \<in> {9, 10, 11, 12, 13, 32}"

definition ascii_trim :: "string \<Rightarrow> string" where
  "ascii_trim s = rev (dropWhile is_space (rev (dropWhile is_space s)))"

definition ascii_builtins :: string_builtins where
  "ascii_builtins = \<lparr>js_toUpperCase = ascii_toUpperCase, js_trim = ascii_trim\<rparr>"

text \<open>\<^verbatim>\<open>xs.join(sep)\<close>.\<close>

fun join :: "string \<Rightarrow> string list \<Rightarrow> string" where
  "join sep [] = []"
| "join sep [x] = x"
| "join sep (x # y # ys) = x @ sep @ join sep (y # ys)"

text \<open>\<^verbatim>\<open>xs.at(-1)\<close>: the last element, or undefined on the empty array.\<close>

definition at_last :: "'a list \<Rightarrow> 'a option" where
  "at_last xs = (if xs = [] then None else Some (last xs))"


section \<open>Request headers and the header projection\<close>

text \<open>
  A value of \<^verbatim>\<open>req.headers\<close> is a string or an array of strings; a missing key reads as
  undefined. The object is kept as an association list in enumeration order, read with
  \<^const>\<open>map_of\<close>.
\<close>

datatype hval = Single string | Multi "string list"

type_synonym incoming_headers = "(string \<times> hval) list"

text \<open>
  The projection builds a \<^verbatim>\<open>Record<string, string>\<close>. At run time one of its writes can
  store undefined (the last element of an empty array), so a stored value is a string or
  undefined.
\<close>

datatype jsval = Undefined | Str string

type_synonym header_record = "string \<rightharpoonup> jsval"

text \<open>What \<^verbatim>\<open>JSON.parse\<close> returns, as far as the projection looks at it: whether the value
  is an array, and whether an element is a string.\<close>

datatype json = JString string | JArray "json list" | JOther

text \<open>String conversion of a header value handed to \<^verbatim>\<open>JSON.parse\<close>: an array is joined
  with commas.\<close>

fun hval_to_string :: "hval \<Rightarrow> string" where
  "hval_to_string (Single s) = s"
| "hval_to_string (Multi vs) = join '','' vs"

text \<open>The body of the loop over all request headers (first part of \<^verbatim>\<open>getHttpHeaders\<close>).\<close>

definition forward_key :: "incoming_headers \<Rightarrow> string \<Rightarrow> header_record \<Rightarrow> header_record" where
  "forward_key hs key headers =
     (let lowerKey = toLowerCase key in
      if prefix ''mcp-'' lowerKey \<or> lowerKey = ''authorization'' \<or> lowerKey = ''last-event-id''
      then (if lowerKey \<noteq> ''x-mcp-proxy-auth'' \<and> lowerKey \<noteq> ''mcp-session-id''
            then (case map_of hs key of
                    Some (Single v) \<Rightarrow> headers(key \<mapsto> Str v)
                  | Some (Multi vs) \<Rightarrow>
                      (case at_last vs of
                         Some lastValue \<Rightarrow> headers(key \<mapsto> Str lastValue)
                       | None \<Rightarrow> headers)
                  | None \<Rightarrow> headers)
            else headers)
      else headers)"

text \<open>The legacy meta-header \<^verbatim>\<open>x-custom-auth-header\<close>: one header name.\<close>

definition custom_auth_header :: "incoming_headers \<Rightarrow> header_record \<Rightarrow> header_record" where
  "custom_auth_header hs headers =
     (case map_of hs ''x-custom-auth-header'' of
        Some (Single customAuthHeaderName) \<Rightarrow>
          (case map_of hs (toLowerCase customAuthHeaderName) of
             Some (Single v) \<Rightarrow> headers(customAuthHeaderName \<mapsto> Str v)
           | Some (Multi vs) \<Rightarrow>
               (case at_last vs of
                  Some lastValue \<Rightarrow> headers(customAuthHeaderName \<mapsto> Str lastValue)
                | None \<Rightarrow> headers)
           | None \<Rightarrow> headers)
      | _ \<Rightarrow> headers)"

text \<open>
  The meta-header \<^verbatim>\<open>x-custom-auth-headers\<close>: a JSON list of names. An element that is
  not a string has no \<^verbatim>\<open>toLowerCase\<close>; the call throws, the surrounding
  \<^verbatim>\<open>try\<close> catches it, and the names written before it stay. A name is looked up
  among the headers the request sent; the values that \<^verbatim>\<open>req.headers\<close> inherits as an
  object, under \<^verbatim>\<open>constructor\<close> and \<^verbatim>\<open>__proto__\<close>, are not strings and are left
  out of the model.
\<close>

fun custom_headers_forEach :: "incoming_headers \<Rightarrow> json list \<Rightarrow> header_record \<Rightarrow> header_record" where
  "custom_headers_forEach hs [] headers = headers"
| "custom_headers_forEach hs (JString headerName # rest) headers =
     custom_headers_forEach hs rest
       (case map_of hs (toLowerCase headerName) of
          None \<Rightarrow> headers
        | Some (Single v) \<Rightarrow> headers(headerName \<mapsto> Str v)
        | Some (Multi vs) \<Rightarrow>
            headers(headerName \<mapsto> (case at_last vs of None \<Rightarrow> Undefined | Some l \<Rightarrow> Str l)))"
| "custom_headers_forEach hs (_ # rest) headers = headers"

definition custom_auth_headers ::
  "(string \<Rightarrow> json option) \<Rightarrow> incoming_headers \<Rightarrow> header_record \<Rightarrow> header_record" where
  "custom_auth_headers JSON_parse hs headers =
     (case map_of hs ''x-custom-auth-headers'' of
        None \<Rightarrow> headers
      | Some raw \<Rightarrow>
          (case JSON_parse (hval_to_string raw) of
             Some (JArray customHeaderNames) \<Rightarrow> custom_headers_forEach hs customHeaderNames headers
           | _ \<Rightarrow> headers))"

text \<open>
  \<^verbatim>\<open>getHttpHeaders\<close>. \<^verbatim>\<open>JSON.parse\<close> is a parameter; \<open>None\<close> is its SyntaxError.
\<close>

definition getHttpHeaders :: "(string \<Rightarrow> json option) \<Rightarrow> incoming_headers \<Rightarrow> header_record" where
  "getHttpHeaders JSON_parse hs =
     custom_auth_headers JSON_parse hs
       (custom_auth_header hs
          (fold (forward_key hs) (map fst hs) Map.empty))"

text \<open>A header name that, compared without regard to case, is the proxy's auth header or
  the proxy's session-id header.\<close>

definition proxy_private :: "string \<Rightarrow> bool" where
  "proxy_private name \<longleftrightarrow>
     toLowerCase name = ''x-mcp-proxy-auth'' \<or> toLowerCase name = ''mcp-session-id''"

text \<open>
  \<^verbatim>\<open>updateHeadersInPlace\<close>: the result is the new content of the object
  \<^verbatim>\<open>currentHeaders\<close>. \<^verbatim>\<open>if (accept)\<close> holds for a non-empty string only.
\<close>

definition updateHeadersInPlace :: "header_record \<Rightarrow> header_record \<Rightarrow> header_record" where
  "updateHeadersInPlace currentHeaders newHeaders =
     (let accept = currentHeaders ''Accept'';
          cleared = currentHeaders |` (- dom currentHeaders);
          assigned = cleared ++ newHeaders
      in case accept of
           Some (Str a) \<Rightarrow> if a \<noteq> [] then assigned(''Accept'' \<mapsto> Str a) else assigned
         | _ \<Rightarrow> assigned)"

definition truthy :: "jsval option \<Rightarrow> bool" where
  "truthy v = (case v of Some (Str a) \<Rightarrow> a \<noteq> [] | _ \<Rightarrow> False)"


section \<open>Process environment, requests and responses\<close>

text \<open>
  The environment variables the proxy reads at start-up, and the 64 hex digits of
  \<^verbatim>\<open>randomBytes(32)\<close>. A variable is unset (\<open>None\<close>) or a string; \<^verbatim>\<open>||\<close> and
  \<^verbatim>\<open>!!\<close> treat the empty string like an unset variable. The secret is a string over
  the same 8-bit characters as a header value.
\<close>

record environment =
  MCP_PROXY_AUTH_TOKEN :: "string option"
  DANGEROUSLY_OMIT_AUTH :: "string option"
  CLIENT_PORT :: "string option"
  ALLOWED_ORIGINS :: "string option"
  randomBytes_hex :: string

definition sessionToken :: "environment \<Rightarrow> string" where
  "sessionToken env =
     (case MCP_PROXY_AUTH_TOKEN env of
        Some t \<Rightarrow> if t \<noteq> [] then t else randomBytes_hex env
      | None \<Rightarrow> randomBytes_hex env)"

definition authDisabled :: "environment \<Rightarrow> bool" where
  "authDisabled env = (case DANGEROUSLY_OMIT_AUTH env of Some v \<Rightarrow> v \<noteq> [] | None \<Rightarrow> False)"

datatype http_method = GET | POST | DELETE

record request =
  req_method :: http_method
  req_path :: string
  req_headers :: incoming_headers

text \<open>A response body: \<^verbatim>\<open>end()\<close>, \<^verbatim>\<open>end(text)\<close>, \<^verbatim>\<open>json({...})\<close> of string
  fields, or \<^verbatim>\<open>json(error)\<close> of a caught exception.\<close>

datatype body = NoBody | Text string | Json "(string \<times> string) list" | JsonOfError

text \<open>A middleware either calls \<^verbatim>\<open>next()\<close> or answers with a status and a body.\<close>

datatype mw_result = Next | Respond nat body

text \<open>\<^verbatim>\<open>s.split(sep)\<close> for a one-character separator.\<close>

fun split :: "char \<Rightarrow> string \<Rightarrow> string list" where
  "split sep [] = [[]]"
| "split sep (c # cs) =
     (if c = sep then [] # split sep cs
      else (case split sep cs of x # xs \<Rightarrow> (c # x) # xs | [] \<Rightarrow> [[c]]))"

definition allowedOrigins :: "environment \<Rightarrow> string list" where
  "allowedOrigins env =
     (let clientPort = (case CLIENT_PORT env of
                          Some p \<Rightarrow> if p \<noteq> [] then p else ''6274''
                        | None \<Rightarrow> ''6274'');
          defaultOrigin = ''http://localhost:'' @ clientPort
      in case ALLOWED_ORIGINS env of
           Some s \<Rightarrow> split CHR '','' s
         | None \<Rightarrow> [defaultOrigin])"

definition forbidden_origin :: body where
  "forbidden_origin = Json
     [(''error'', ''Forbidden - invalid origin''),
      (''message'', ''Request blocked to prevent DNS rebinding attacks. Configure allowed origins via environment variable.'')]"

text \<open>
  \<^verbatim>\<open>originValidationMiddleware\<close>. An array-valued \<^verbatim>\<open>Origin\<close> is truthy and equal
  to no allowed origin.
\<close>

definition originValidationMiddleware :: "environment \<Rightarrow> request \<Rightarrow> mw_result" where
  "originValidationMiddleware env req =
     (case map_of (req_headers req) ''origin'' of
        None \<Rightarrow> Next
      | Some (Single origin) \<Rightarrow>
          if origin \<noteq> [] \<and> origin \<notin> set (allowedOrigins env)
          then Respond 403 forbidden_origin else Next
      | Some (Multi vs) \<Rightarrow> Respond 403 forbidden_origin)"


section \<open>The auth gate\<close>

text \<open>
  \<^verbatim>\<open>Buffer.from(s)\<close> encodes a string as UTF-8: a character below 128 is one byte,
  a character from 128 to 255 is two.
\<close>

fun Buffer_from :: "string \<Rightarrow> nat list" where
  "Buffer_from [] = []"
| "Buffer_from (c # cs) =
     (if (of_char c :: nat) < 128 then [of_char c]
      else [192 + of_char c div 64, 128 + of_char c mod 64]) @ Buffer_from cs"

datatype js_error = RangeError | TypeError

text \<open>
  \<^verbatim>\<open>timingSafeEqual\<close> of \<^verbatim>\<open>node:crypto\<close>, by its result: it throws on buffers of
  different lengths and compares the bytes otherwise. Its running time is not part of the
  model.
\<close>

definition timingSafeEqual :: "nat list \<Rightarrow> nat list \<Rightarrow> js_error + bool" where
  "timingSafeEqual a b = (if length a \<noteq> length b then Inl RangeError else Inr (a = b))"

text \<open>The header value the gate reads: the first element when the header is an array.\<close>

definition authHeaderValue :: "request \<Rightarrow> string option" where
  "authHeaderValue req =
     (case map_of (req_headers req) ''x-mcp-proxy-auth'' of
        None \<Rightarrow> None
      | Some (Single s) \<Rightarrow> Some s
      | Some (Multi vs) \<Rightarrow> (case vs of [] \<Rightarrow> None | v # _ \<Rightarrow> Some v))"

text \<open>
  \<^verbatim>\<open>authMiddleware\<close> has five return statements; \<open>authMiddleware_exit\<close> says which one
  a request leaves by (\<open>CompareThrew\<close> is the exception of \<^verbatim>\<open>timingSafeEqual\<close>, which
  Express answers with 500), and \<open>authMiddleware\<close> gives what the client sees.
\<close>

datatype auth_exit =
  Disabled | NoBearer | LengthMismatch | CompareFailed | CompareThrew | Authenticated

definition authMiddleware_exit :: "environment \<Rightarrow> request \<Rightarrow> auth_exit" where
  "authMiddleware_exit env req =
     (if authDisabled env then Disabled
      else case authHeaderValue req of
             None \<Rightarrow> NoBearer
           | Some v \<Rightarrow>
               if v = [] \<or> \<not> prefix ''Bearer '' v then NoBearer
               else let providedToken = drop 7 v;
                        expectedToken = sessionToken env;
                        providedBuffer = Buffer_from providedToken;
                        expectedBuffer = Buffer_from expectedToken
                    in if length providedBuffer \<noteq> length expectedBuffer then LengthMismatch
                       else (case timingSafeEqual providedBuffer expectedBuffer of
                               Inl e \<Rightarrow> CompareThrew
                             | Inr eq \<Rightarrow> if \<not> eq then CompareFailed else Authenticated))"

definition unauthorized :: body where
  "unauthorized = Json
     [(''error'', ''Unauthorized''),
      (''message'', ''Authentication required. Use the session token shown in the console when starting the server.'')]"

definition authMiddleware :: "environment \<Rightarrow> request \<Rightarrow> mw_result" where
  "authMiddleware env req =
     (case authMiddleware_exit env req of
        Disabled \<Rightarrow> Next
      | Authenticated \<Rightarrow> Next
      | CompareThrew \<Rightarrow> Respond 500 JsonOfError
      | _ \<Rightarrow> Respond 401 unauthorized)"

text \<open>The credential of a well-formed header: what follows \<^verbatim>\<open>Bearer\<close> and one space.\<close>

definition bearer_credential :: "request \<Rightarrow> string option" where
  "bearer_credential req =
     (case authHeaderValue req of
        None \<Rightarrow> None
      | Some v \<Rightarrow> if prefix ''Bearer '' v then Some (drop 7 v) else None)"

text \<open>
  The gate once more, with the byte comparison as a parameter that returns, next to its
  result, what the call cost. The second component of the result is the cost spent
  comparing the credential with the secret; a request that leaves before the comparison
  has spent none.
\<close>

definition authMiddleware_cost ::
  "(nat list \<Rightarrow> nat list \<Rightarrow> js_error + bool \<times> nat) \<Rightarrow> environment \<Rightarrow> request \<Rightarrow> auth_exit \<times> nat" where
  "authMiddleware_cost compare env req =
     (if authDisabled env then (Disabled, 0)
      else case authHeaderValue req of
             None \<Rightarrow> (NoBearer, 0)
           | Some v \<Rightarrow>
               if v = [] \<or> \<not> prefix ''Bearer '' v then (NoBearer, 0)
               else let providedToken = drop 7 v;
                        expectedToken = sessionToken env;
                        providedBuffer = Buffer_from providedToken;
                        expectedBuffer = Buffer_from expectedToken
                    in if length providedBuffer \<noteq> length expectedBuffer then (LengthMismatch, 0)
                       else (case compare providedBuffer expectedBuffer of
                               Inl e \<Rightarrow> (CompareThrew, 0)
                             | Inr (eq, cost) \<Rightarrow>
                                 if \<not> eq then (CompareFailed, cost) else (Authenticated, cost)))"

text \<open>
  Two comparisons with the result of \<^verbatim>\<open>timingSafeEqual\<close>, counting the byte pairs they
  look at: one looks at every pair, the other stops at the first pair that differs.
\<close>

fun compare_every_byte :: "nat list \<Rightarrow> nat list \<Rightarrow> bool \<times> nat" where
  "compare_every_byte (x # xs) (y # ys) =
     (case compare_every_byte xs ys of (eq, n) \<Rightarrow> (x = y \<and> eq, Suc n))"
| "compare_every_byte [] [] = (True, 0)"
| "compare_every_byte xs ys = (False, 0)"

definition constant_time_compare :: "nat list \<Rightarrow> nat list \<Rightarrow> js_error + bool \<times> nat" where
  "constant_time_compare a b =
     (if length a \<noteq> length b then Inl RangeError else Inr (compare_every_byte a b))"

fun compare_to_first_difference :: "nat list \<Rightarrow> nat list \<Rightarrow> bool \<times> nat" where
  "compare_to_first_difference (x # xs) (y # ys) =
     (if x \<noteq> y then (False, 1)
      else case compare_to_first_difference xs ys of (eq, n) \<Rightarrow> (eq, Suc n))"
| "compare_to_first_difference [] [] = (True, 0)"
| "compare_to_first_difference xs ys = (False, 0)"

definition early_exit_compare :: "nat list \<Rightarrow> nat list \<Rightarrow> js_error + bool \<times> nat" where
  "early_exit_compare a b =
     (if length a \<noteq> length b then Inl RangeError else Inr (compare_to_first_difference a b))"


section \<open>The route table\<close>

text \<open>
  Each \<^verbatim>\<open>app.get\<close>, \<^verbatim>\<open>app.post\<close> and \<^verbatim>\<open>app.delete\<close> call of the server, in source
  order: method, path pattern and the chain of callbacks registered for it. The two
  \<^verbatim>\<open>app.use\<close> callbacks (CORS and the exposed session-id header) precede every route
  and make no check of their own.
\<close>

datatype middleware = OriginValidation | Auth | ExpressJson | Handler

type_synonym route = "http_method \<times> string \<times> middleware list"

definition routes :: "route list" where
  "routes =
     [(GET, ''/mcp'', [OriginValidation, Auth, Handler]),
      (POST, ''/mcp'', [OriginValidation, Auth, Handler]),
      (DELETE, ''/mcp'', [OriginValidation, Auth, Handler]),
      (GET, ''/stdio'', [OriginValidation, Auth, Handler]),
      (GET, ''/sse'', [OriginValidation, Auth, Handler]),
      (POST, ''/message'', [OriginValidation, Auth, Handler]),
      (GET, ''/health'', [Handler]),
      (GET, ''/fetch-json'', [OriginValidation, Auth, Handler]),
      (GET, ''/mcp-config'', [OriginValidation, Auth, Handler]),
      (GET, ''/config'', [OriginValidation, Auth, Handler]),
      (GET, ''/servers'', [OriginValidation, Handler]),
      (GET, ''/servers/:serverName/tools'', [OriginValidation, Handler]),
      (POST, ''/update-mcp-config'', [OriginValidation, Auth, ExpressJson, Handler]),
      (POST, ''/execute-tool'', [OriginValidation, ExpressJson, Handler]),
      (GET, ''/logs'', [OriginValidation, Auth, Handler]),
      (GET, ''/logs/current'', [Handler]),
      (GET, ''/logs/:filename'', [Handler]),
      (DELETE, ''/logs/cleanup'', [OriginValidation, Auth, Handler]),
      (POST, ''/logs/test'', [OriginValidation, Auth, ExpressJson, Handler])]"

text \<open>
  Express runs a chain from the left; a callback that answers without calling
  \<^verbatim>\<open>next()\<close> ends it. \<open>run_chain\<close> runs the two checks of a chain and returns the checks
  that ran, with either the answer of the check that blocked the request or the callbacks
  the request goes on to.
\<close>

datatype chain_result = Blocked nat body | Reached "middleware list"

fun run_chain :: "environment \<Rightarrow> request \<Rightarrow> middleware list \<Rightarrow> middleware list \<times> chain_result" where
  "run_chain env req [] = ([], Reached [])"
| "run_chain env req (OriginValidation # ms) =
     (case originValidationMiddleware env req of
        Next \<Rightarrow> (case run_chain env req ms of (checks, r) \<Rightarrow> (OriginValidation # checks, r))
      | Respond st b \<Rightarrow> ([OriginValidation], Blocked st b))"
| "run_chain env req (Auth # ms) =
     (case authMiddleware env req of
        Next \<Rightarrow> (case run_chain env req ms of (checks, r) \<Rightarrow> (Auth # checks, r))
      | Respond st b \<Rightarrow> ([Auth], Blocked st b))"
| "run_chain env req (m # ms) = ([], Reached (m # ms))"


section \<open>The session tables\<close>

text \<open>
  A transport object is its identity and its class. The three module-level maps are the
  fields of \<open>registry\<close>; the holder table keeps the current headers of each holder.
\<close>

type_synonym sid = string

datatype transport_class =
  StdioClientTransport | SSEClientTransport | StreamableHTTPClientTransport
  | SSEServerTransport | StreamableHTTPServerTransport

type_synonym transport = "nat \<times> transport_class"

record registry =
  webAppTransports :: "sid \<rightharpoonup> transport"
  serverTransports :: "sid \<rightharpoonup> transport"
  sessionHeaderHolders :: "sid \<rightharpoonup> header_record"

definition empty_registry :: registry where
  "empty_registry =
     \<lparr>webAppTransports = Map.empty, serverTransports = Map.empty,
      sessionHeaderHolders = Map.empty\<rparr>"

datatype severity = Debug | Info | Notice | Warning | Error | Critical | Alert | Emergency

text \<open>The \<^verbatim>\<open>params\<close> of a \<^verbatim>\<open>notifications/message\<close> notification.\<close>

record notification =
  level :: severity
  logger :: string
  message :: string

text \<open>
  What a handler does to the outside, in call order: a message sent on a transport, a
  transport closed, \<^verbatim>\<open>terminateSession\<close> called on a transport, a status and body
  written to the response. Console output is left out.
\<close>

datatype effect =
  Send transport notification
  | Close transport
  | TerminateSession transport
  | Reply nat body

text \<open>
  \<^verbatim>\<open>createTransport\<close>, as far as the tables see it: the class of the upstream transport
  it builds for \<^verbatim>\<open>query.transportType\<close>, and the header holder it builds the transport
  around. \<open>ref\<close> is the identity of the new transport and \<open>headers\<close> is
  \<^verbatim>\<open>getHttpHeaders(req)\<close>. \<open>None\<close> is the error thrown for any other type; the handler
  that called then registers nothing.
\<close>

definition createTransport ::
  "string \<Rightarrow> nat \<Rightarrow> header_record \<Rightarrow> (transport \<times> header_record option) option" where
  "createTransport transportType ref headers =
     (if transportType = ''stdio'' then Some ((ref, StdioClientTransport), None)
      else if transportType = ''sse''
      then Some ((ref, SSEClientTransport),
                 Some (headers(''Accept'' \<mapsto> Str ''text/event-stream'')))
      else if transportType = ''streamable-http''
      then Some ((ref, StreamableHTTPClientTransport),
                 Some (headers(''Accept'' \<mapsto> Str ''text/event-stream, application/json'')))
      else None)"

text \<open>
  A registered session carries a header bag when its upstream transport is of a class that
  \<^verbatim>\<open>createTransport\<close> builds around a header holder.
\<close>

definition carries_header_bag :: "registry \<Rightarrow> sid \<Rightarrow> bool" where
  "carries_header_bag s i =
     (case serverTransports s i of
        Some t \<Rightarrow> snd t = SSEClientTransport \<or> snd t = StreamableHTTPClientTransport
      | None \<Rightarrow> False)"

text \<open>The three \<^verbatim>\<open>delete\<close> calls that every removal site of the source makes.\<close>

definition delete_all :: "sid \<Rightarrow> registry \<Rightarrow> registry" where
  "delete_all sessionId s =
     s\<lparr>webAppTransports := (webAppTransports s)(sessionId := None),
       serverTransports := (serverTransports s)(sessionId := None),
       sessionHeaderHolders := (sessionHeaderHolders s)(sessionId := None)\<rparr>"

text \<open>Registration in \<^verbatim>\<open>GET /stdio\<close>: the holder that \<^verbatim>\<open>createTransport\<close> may return
  is not taken.\<close>

definition stdio_register :: "sid \<Rightarrow> transport \<Rightarrow> transport \<Rightarrow> registry \<Rightarrow> registry" where
  "stdio_register sessionId webAppTransport serverTransport s =
     s\<lparr>webAppTransports := (webAppTransports s)(sessionId \<mapsto> webAppTransport),
       serverTransports := (serverTransports s)(sessionId \<mapsto> serverTransport)\<rparr>"

text \<open>Registration in \<^verbatim>\<open>GET /sse\<close>.\<close>

definition sse_register ::
  "sid \<Rightarrow> transport \<Rightarrow> transport \<Rightarrow> header_record option \<Rightarrow> registry \<Rightarrow> registry" where
  "sse_register sessionId webAppTransport serverTransport headerHolder s =
     (let s' = s\<lparr>webAppTransports := (webAppTransports s)(sessionId \<mapsto> webAppTransport),
                  serverTransports := (serverTransports s)(sessionId \<mapsto> serverTransport)\<rparr>
      in case headerHolder of
           Some h \<Rightarrow> s'\<lparr>sessionHeaderHolders := (sessionHeaderHolders s')(sessionId \<mapsto> h)\<rparr>
         | None \<Rightarrow> s')"

text \<open>The two callbacks given to the web-facing transport in \<^verbatim>\<open>POST /mcp\<close>.\<close>

definition onsessioninitialized ::
  "sid \<Rightarrow> transport \<Rightarrow> transport \<Rightarrow> header_record option \<Rightarrow> registry \<Rightarrow> registry" where
  "onsessioninitialized sessionId webAppTransport serverTransport headerHolder s =
     (let s' = s\<lparr>webAppTransports := (webAppTransports s)(sessionId \<mapsto> webAppTransport),
                  serverTransports := (serverTransports s)(sessionId \<mapsto> serverTransport)\<rparr>
      in case headerHolder of
           Some h \<Rightarrow> s'\<lparr>sessionHeaderHolders := (sessionHeaderHolders s')(sessionId \<mapsto> h)\<rparr>
         | None \<Rightarrow> s')"

definition onsessionclosed :: "sid \<Rightarrow> registry \<Rightarrow> registry" where
  "onsessionclosed sessionId s = delete_all sessionId s"

text \<open>The header update at the start of \<^verbatim>\<open>GET /mcp\<close>, \<^verbatim>\<open>POST /mcp\<close> and
  \<^verbatim>\<open>POST /message\<close>: the holder found for the session id is updated in place.\<close>

definition update_session_headers :: "sid \<Rightarrow> header_record \<Rightarrow> registry \<Rightarrow> registry" where
  "update_session_headers sessionId newHeaders s =
     (case sessionHeaderHolders s sessionId of
        Some currentHeaders \<Rightarrow>
          s\<lparr>sessionHeaderHolders :=
              (sessionHeaderHolders s)(sessionId \<mapsto> updateHeadersInPlace currentHeaders newHeaders)\<rparr>
      | None \<Rightarrow> s)"

text \<open>
  The handler of \<^verbatim>\<open>DELETE /mcp\<close>. \<open>terminated\<close> says whether the awaited
  \<^verbatim>\<open>terminateSession()\<close> resolves; only a streamable-HTTP client transport has that
  method, on any other object the call throws. Both failures are caught and answered 500.
  After the 404 the handler goes on to \<^verbatim>\<open>res.status(200).end()\<close>; the first reply is the
  one that reaches the client. An array-valued session id is truthy and is no key of the map.
\<close>

definition mcp_delete :: "request \<Rightarrow> bool \<Rightarrow> registry \<Rightarrow> registry \<times> effect list" where
  "mcp_delete req terminated s =
     (case map_of (req_headers req) ''mcp-session-id'' of
        None \<Rightarrow> (s, [])
      | Some (Single sessionId) \<Rightarrow>
          if sessionId = [] then (s, [])
          else (case serverTransports s sessionId of
                  None \<Rightarrow>
                    (s, [Reply 404 (Text (''Transport not found for sessionId '' @ sessionId)),
                         Reply 200 NoBody])
                | Some serverTransport \<Rightarrow>
                    if snd serverTransport \<noteq> StreamableHTTPClientTransport
                    then (s, [Reply 500 JsonOfError])
                    else if terminated
                    then (delete_all sessionId s,
                          [TerminateSession serverTransport, Reply 200 NoBody])
                    else (s, [TerminateSession serverTransport, Reply 500 JsonOfError]))
      | Some (Multi vs) \<Rightarrow>
          (s, [Reply 404 (Text (''Transport not found for sessionId '' @ join '','' vs)),
               Reply 200 NoBody]))"

text \<open>The route \<^verbatim>\<open>DELETE /mcp\<close>: origin check, auth check, handler.\<close>

definition route_mcp_delete ::
  "environment \<Rightarrow> request \<Rightarrow> bool \<Rightarrow> registry \<Rightarrow> registry \<times> effect list" where
  "route_mcp_delete env req terminated s =
     (case originValidationMiddleware env req of
        Respond st b \<Rightarrow> (s, [Reply st b])
      | Next \<Rightarrow>
          (case authMiddleware env req of
             Respond st b \<Rightarrow> (s, [Reply st b])
           | Next \<Rightarrow> mcp_delete req terminated s))"

text \<open>The first reply written is the response of the request.\<close>

fun response :: "effect list \<Rightarrow> (nat \<times> body) option" where
  "response [] = None"
| "response (Reply st b # es) = Some (st, b)"
| "response (e # es) = response es"


section \<open>The error stream of a stdio session\<close>

text \<open>
  The handler reads a chunk through \<^verbatim>\<open>chunk.toString()\<close> alone; the argument \<open>chunk\<close>
  below is that text. \<open>classify\<close> is the \<^verbatim>\<open>else\<close> branch of the \<^verbatim>\<open>data\<close> handler: the
  level and the message of the notification for a chunk.
\<close>

definition classify :: "string_builtins \<Rightarrow> string \<Rightarrow> severity \<times> string" where
  "classify ops chunk =
     (let message = js_trim ops chunk;
          ucMsg = js_toUpperCase ops chunk
      in if includes_str ucMsg ''DEBUG'' then (Debug, message)
         else if includes_str ucMsg ''INFO'' then (Info, message)
         else if includes_str ucMsg ''NOTICE'' then (Notice, message)
         else if includes_str ucMsg ''WARN'' then (Warning, message)
         else if includes_str ucMsg ''ERROR'' then (Error, message)
         else if includes_str ucMsg ''CRITICAL'' then (Critical, message)
         else if includes_str ucMsg ''ALERT'' then (Alert, message)
         else if includes_str ucMsg ''EMERGENCY'' then (Emergency, message)
         else if includes_str ucMsg ''SIGINT'' then (Emergency, ''SIGINT received. Server shutdown.'')
         else if includes_str ucMsg ''SIGHUP'' then (Emergency, ''SIGHUP received. Server shutdown.'')
         else if includes_str ucMsg ''SIGTERM'' then (Emergency, ''SIGTERM received. Server shutdown.'')
         else (Info, message))"

text \<open>
  The \<^verbatim>\<open>data\<close> handler on the child's error stream, for the session \<open>sessionId\<close> with
  its two transports.
\<close>

definition stderr_on_data ::
  "string_builtins \<Rightarrow> sid \<Rightarrow> transport \<Rightarrow> transport \<Rightarrow> string \<Rightarrow> registry
     \<Rightarrow> registry \<times> effect list" where
  "stderr_on_data ops sessionId webAppTransport serverTransport chunk s =
     (if includes_str chunk ''MODULE_NOT_FOUND''
      then (delete_all sessionId s,
            [Send webAppTransport
               \<lparr>level = Emergency, logger = ''proxy'',
                message = ''Command not found, transports removed''\<rparr>,
             Close webAppTransport,
             Close serverTransport])
      else (case classify ops chunk of
              (lv, msg) \<Rightarrow>
                (s, [Send webAppTransport \<lparr>level = lv, logger = ''stdio'', message = msg\<rparr>])))"

text \<open>
  The classifier as the specification words it: an ordered keyword table and a table of
  termination signals, each searched for its first entry that occurs in the upper-cased
  text, so that the case of the text does not matter; the message is the trimmed text
  unless a signal replaces it.
\<close>

definition keyword_table :: "(string \<times> severity) list" where
  "keyword_table =
     [(''DEBUG'', Debug), (''INFO'', Info), (''NOTICE'', Notice), (''WARN'', Warning),
      (''ERROR'', Error), (''CRITICAL'', Critical), (''ALERT'', Alert),
      (''EMERGENCY'', Emergency)]"

definition signal_table :: "(string \<times> string) list" where
  "signal_table =
     [(''SIGINT'', ''SIGINT received. Server shutdown.''),
      (''SIGHUP'', ''SIGHUP received. Server shutdown.''),
      (''SIGTERM'', ''SIGTERM received. Server shutdown.'')]"

definition classify_by_table :: "string_builtins \<Rightarrow> string \<Rightarrow> severity \<times> string" where
  "classify_by_table ops text =
     (case find (\<lambda>(word, lv). includes_str (js_toUpperCase ops text) word) keyword_table of
        Some (word, lv) \<Rightarrow> (lv, js_trim ops text)
      | None \<Rightarrow>
          (case find (\<lambda>(word, fixed). includes_str (js_toUpperCase ops text) word) signal_table of
             Some (word, fixed) \<Rightarrow> (Emergency, fixed)
           | None \<Rightarrow> (Info, js_trim ops text)))"


section \<open>Histories of table updates\<close>

text \<open>
  Node runs a handler without interleaving until it awaits, so the tables are observed
  between the synchronous blocks that write them. Each such block of the source is one
  event; a history is the list of events since start-up. \<^verbatim>\<open>DELETE /mcp\<close> awaits the
  upstream before its three deletes; when other blocks run during that wait, the deletes
  alone are the block, and they are those of \<open>Mcp_session_closed\<close>.

  A connecting event carries the session id, the web-facing transport, and what its
  handler passes to \<^verbatim>\<open>createTransport\<close>: the transport type of the query, the identity
  of the upstream transport to be built, and the projected headers. \<^verbatim>\<open>GET /stdio\<close> takes
  the transport from the result and leaves the holder; \<^verbatim>\<open>GET /sse\<close> and
  \<^verbatim>\<open>POST /mcp\<close> take both.
\<close>

datatype event =
  Stdio_connect sid transport string nat header_record
  | Sse_connect sid transport string nat header_record
  | Mcp_session_initialized sid transport string nat header_record
  | Mcp_session_closed sid
  | Mcp_delete request bool
  | Stderr_data sid transport transport string
  | Headers_update sid header_record

fun apply_event :: "string_builtins \<Rightarrow> event \<Rightarrow> registry \<Rightarrow> registry" where
  "apply_event ops (Stdio_connect i w ty r hs) s =
     (case createTransport ty r hs of
        None \<Rightarrow> s
      | Some (t, h) \<Rightarrow> stdio_register i w t s)"
| "apply_event ops (Sse_connect i w ty r hs) s =
     (case createTransport ty r hs of
        None \<Rightarrow> s
      | Some (t, h) \<Rightarrow> sse_register i w t h s)"
| "apply_event ops (Mcp_session_initialized i w ty r hs) s =
     (case createTransport ty r hs of
        None \<Rightarrow> s
      | Some (t, h) \<Rightarrow> onsessioninitialized i w t h s)"
| "apply_event ops (Mcp_session_closed i) s = onsessionclosed i s"
| "apply_event ops (Mcp_delete req terminated) s = fst (mcp_delete req terminated s)"
| "apply_event ops (Stderr_data i w t chunk) s = fst (stderr_on_data ops i w t chunk s)"
| "apply_event ops (Headers_update i new) s = update_session_headers i new s"

definition run :: "string_builtins \<Rightarrow> event list \<Rightarrow> registry" where
  "run ops evs = fold (apply_event ops) evs empty_registry"

text \<open>Whether the latest registration of an id was made by \<^verbatim>\<open>GET /stdio\<close>.\<close>

fun stdio_step :: "event \<Rightarrow> (sid \<Rightarrow> bool) \<Rightarrow> (sid \<Rightarrow> bool)" where
  "stdio_step (Stdio_connect i w ty r hs) b =
     (if createTransport ty r hs = None then b else b(i := True))"
| "stdio_step (Sse_connect i w ty r hs) b =
     (if createTransport ty r hs = None then b else b(i := False))"
| "stdio_step (Mcp_session_initialized i w ty r hs) b =
     (if createTransport ty r hs = None then b else b(i := False))"
| "stdio_step e b = b"

definition opened_by_stdio :: "event list \<Rightarrow> sid \<Rightarrow> bool" where
  "opened_by_stdio evs = fold stdio_step evs (\<lambda>i. False)"

text \<open>
  The id is in the two transport tables, and in the holder table too when its session
  carries a header bag and was not opened by \<^verbatim>\<open>GET /stdio\<close>, or it is in none of the
  three tables.
\<close>

definition registered_together :: "registry \<Rightarrow> (sid \<Rightarrow> bool) \<Rightarrow> sid \<Rightarrow> bool" where
  "registered_together s stdio i \<longleftrightarrow>
     (i \<in> dom (webAppTransports s) \<and> i \<in> dom (serverTransports s)
        \<and> (carries_header_bag s i \<and> \<not> stdio i \<longrightarrow> i \<in> dom (sessionHeaderHolders s)))
     \<or> (i \<notin> dom (webAppTransports s) \<and> i \<notin> dom (serverTransports s)
        \<and> i \<notin> dom (sessionHeaderHolders s))"


section \<open>Header bag updates\<close>

lemma cleared_empty: "m |` (- dom m) = Map.empty"
  by (rule ext) (auto simp: restrict_map_def)

text \<open>
  C1, as the claim states it, fails: a bag holding \<^verbatim>\<open>Accept: text/event-stream\<close> that is
  updated with a header set supplying \<^verbatim>\<open>Accept: application/json\<close> still holds the old
  value afterwards; the new value does not win.
\<close>

theorem updateHeadersInPlace_new_accept_loses:
  "updateHeadersInPlace [''Accept'' \<mapsto> Str ''text/event-stream'']
      [''Accept'' \<mapsto> Str ''application/json''] ''Accept''
     = Some (Str ''text/event-stream'')"
  by (simp add: updateHeadersInPlace_def cleared_empty)

text \<open>
  C1 (amended): after an in-place update, a non-empty \<^verbatim>\<open>Accept\<close> value the bag held
  before is the bag's \<^verbatim>\<open>Accept\<close> value, whether or not the new header set supplies one;
  the new set's \<^verbatim>\<open>Accept\<close> entry is used only when the bag held none (or an empty one).
  Every other entry of the bag is the new set's entry.
\<close>

theorem updateHeadersInPlace_accept:
  "updateHeadersInPlace cur new k =
     (if k = ''Accept'' \<and> truthy (cur ''Accept'') then cur ''Accept'' else new k)"
  by (auto simp: updateHeadersInPlace_def cleared_empty truthy_def Let_def
           split: option.splits jsval.splits)

theorem updateHeadersInPlace_accept_witness:
  "updateHeadersInPlace [''Accept'' \<mapsto> Str ''text/event-stream'', ''authorization'' \<mapsto> Str ''old'']
      [''authorization'' \<mapsto> Str ''new''] ''Accept'' = Some (Str ''text/event-stream'')
   \<and> updateHeadersInPlace [''Accept'' \<mapsto> Str ''text/event-stream'', ''authorization'' \<mapsto> Str ''old'']
      [''authorization'' \<mapsto> Str ''new''] ''authorization'' = Some (Str ''new'')
   \<and> updateHeadersInPlace Map.empty [''Accept'' \<mapsto> Str ''application/json''] ''Accept''
       = Some (Str ''application/json'')"
  using updateHeadersInPlace_accept
          [of "[''Accept'' \<mapsto> Str ''text/event-stream'', ''authorization'' \<mapsto> Str ''old'']"
              "[''authorization'' \<mapsto> Str ''new'']" "''Accept''"]
        updateHeadersInPlace_accept
          [of "[''Accept'' \<mapsto> Str ''text/event-stream'', ''authorization'' \<mapsto> Str ''old'']"
              "[''authorization'' \<mapsto> Str ''new'']" "''authorization''"]
        updateHeadersInPlace_accept
          [of Map.empty "[''Accept'' \<mapsto> Str ''application/json'']" "''Accept''"]
  by (simp add: truthy_def)


section \<open>What the header projection forwards\<close>

text \<open>
  The loop over the request headers keeps the two names out: without the two meta-headers
  the projection holds neither of them.
\<close>

lemma forward_key_private:
  "\<forall>k \<in> dom headers. \<not> proxy_private k \<Longrightarrow>
   \<forall>k \<in> dom (forward_key hs key headers). \<not> proxy_private k"
  by (auto simp: forward_key_def proxy_private_def Let_def
           split: option.splits hval.splits if_splits)

lemma forward_loop_private:
  "\<forall>k \<in> dom headers. \<not> proxy_private k \<Longrightarrow>
   \<forall>k \<in> dom (fold (forward_key hs) keys headers). \<not> proxy_private k"
proof (induction keys arbitrary: headers)
  case Nil
  then show ?case by simp
next
  case (Cons key keys)
  from Cons.prems have "\<forall>k \<in> dom (forward_key hs key headers). \<not> proxy_private k"
    by (rule forward_key_private)
  then show ?case
    using Cons.IH by simp
qed

lemma getHttpHeaders_without_meta_headers:
  assumes "map_of hs ''x-custom-auth-header'' = None"
    and "map_of hs ''x-custom-auth-headers'' = None"
  shows "\<forall>k \<in> dom (getHttpHeaders JSON_parse hs). \<not> proxy_private k"
proof -
  have "getHttpHeaders JSON_parse hs = fold (forward_key hs) (map fst hs) Map.empty"
    using assms by (simp add: getHttpHeaders_def custom_auth_headers_def custom_auth_header_def)
  then show ?thesis
    using forward_loop_private [of Map.empty hs "map fst hs"] by simp
qed

text \<open>
  C2: the claim is that the projection never yields the proxy's auth header. The code
  excludes it only in the loop over the request headers; a request that names it in
  \<^verbatim>\<open>x-custom-auth-header\<close> gets it forwarded, with the credential as its value.
\<close>

theorem getHttpHeaders_forwards_proxy_auth:
  "proxy_private ''x-mcp-proxy-auth''
   \<and> getHttpHeaders JSON_parse
       [(''x-mcp-proxy-auth'', Single ''Bearer abc''),
        (''x-custom-auth-header'', Single ''x-mcp-proxy-auth'')] ''x-mcp-proxy-auth''
     = Some (Str ''Bearer abc'')"
  by (simp add: getHttpHeaders_def custom_auth_headers_def custom_auth_header_def
        forward_key_def proxy_private_def toLowerCase_def toLowerCase_char_def)

section \<open>The auth gate: when a request is rejected\<close>

lemma Buffer_from_inj: "Buffer_from xs = Buffer_from ys \<Longrightarrow> xs = ys"
proof (induction xs arbitrary: ys)
  case Nil
  then show ?case by (cases ys) (auto split: if_splits)
next
  case (Cons x xs)
  then obtain y ys' where ys: "ys = y # ys'"
    by (cases ys) (auto split: if_splits)
  have dm: "a = b"
    if "(of_char a :: nat) div 64 = of_char b div 64" "(of_char a :: nat) mod 64 = of_char b mod 64"
    for a b :: char
  proof -
    have "(of_char a :: nat) = of_char b"
      using that by (metis div_mult_mod_eq)
    then show ?thesis by simp
  qed
  from Cons.prems ys have "x = y \<and> Buffer_from xs = Buffer_from ys'"
    by (auto split: if_splits intro: dm)
  then show ?case using Cons.IH ys by auto
qed

lemma Buffer_from_eq_iff: "Buffer_from xs = Buffer_from ys \<longleftrightarrow> xs = ys"
  using Buffer_from_inj by auto

lemma prefix_Bearer_drop: "prefix ''Bearer '' v \<Longrightarrow> ''Bearer '' @ drop 7 v = v"
proof -
  assume "prefix ''Bearer '' v"
  then obtain zs where "v = ''Bearer '' @ zs"
    by (auto simp: prefix_def)
  then show ?thesis by simp
qed

lemma bearer_credential_eq:
  "bearer_credential req = Some p \<longleftrightarrow> authHeaderValue req = Some (''Bearer '' @ p)"
proof
  assume "bearer_credential req = Some p"
  then obtain v where v: "authHeaderValue req = Some v" "prefix ''Bearer '' v" "p = drop 7 v"
    by (auto simp: bearer_credential_def split: option.splits if_splits)
  from v(2) have "''Bearer '' @ drop 7 v = v"
    by (rule prefix_Bearer_drop)
  with v show "authHeaderValue req = Some (''Bearer '' @ p)"
    by simp
next
  assume "authHeaderValue req = Some (''Bearer '' @ p)"
  then show "bearer_credential req = Some p"
    by (simp add: bearer_credential_def)
qed

lemma authMiddleware_exit_cases:
  "authMiddleware_exit env req =
     (if authDisabled env then Disabled
      else case bearer_credential req of
             None \<Rightarrow> NoBearer
           | Some p \<Rightarrow>
               if length (Buffer_from p) \<noteq> length (Buffer_from (sessionToken env))
               then LengthMismatch
               else if Buffer_from p \<noteq> Buffer_from (sessionToken env) then CompareFailed
               else Authenticated)"
  by (auto simp: authMiddleware_exit_def bearer_credential_def timingSafeEqual_def Let_def
           split: option.splits)

text \<open>
  C5: with auth enabled, the gate answers 401 exactly when the auth header is absent or
  carries no well-formed Bearer credential, or the credential's buffer differs from the
  secret's in length or in bytes; a request that is not rejected proceeds, and the requests
  that proceed are those whose header is \<^verbatim>\<open>Bearer\<close>, a space and the secret. With auth
  disabled every request proceeds.
\<close>

theorem authMiddleware_unauthorized_iff:
  "(authDisabled env \<longrightarrow> authMiddleware env req = Next) \<and>
   (\<not> authDisabled env \<longrightarrow>
      (authMiddleware env req = Respond 401 unauthorized \<longleftrightarrow>
         (case bearer_credential req of
            None \<Rightarrow> True
          | Some p \<Rightarrow> length (Buffer_from p) \<noteq> length (Buffer_from (sessionToken env))
                     \<or> Buffer_from p \<noteq> Buffer_from (sessionToken env))) \<and>
      (authMiddleware env req \<noteq> Respond 401 unauthorized \<longrightarrow> authMiddleware env req = Next) \<and>
      (authMiddleware env req = Next \<longleftrightarrow>
         authHeaderValue req = Some (''Bearer '' @ sessionToken env)))"
  unfolding authMiddleware_def authMiddleware_exit_cases bearer_credential_eq [symmetric]
  by (auto simp: Buffer_from_eq_iff split: option.splits)

theorem authMiddleware_unauthorized_iff_witness:
  "authDisabled
     \<lparr>MCP_PROXY_AUTH_TOKEN = Some ''abc'', DANGEROUSLY_OMIT_AUTH = Some ''true'',
      CLIENT_PORT = None, ALLOWED_ORIGINS = None, randomBytes_hex = ''00''\<rparr>
   \<and> authMiddleware
     \<lparr>MCP_PROXY_AUTH_TOKEN = Some ''abc'', DANGEROUSLY_OMIT_AUTH = Some ''true'',
      CLIENT_PORT = None, ALLOWED_ORIGINS = None, randomBytes_hex = ''00''\<rparr>
     \<lparr>req_method = GET, req_path = ''/config'', req_headers = []\<rparr> = Next
   \<and> \<not> authDisabled
     \<lparr>MCP_PROXY_AUTH_TOKEN = Some ''abc'', DANGEROUSLY_OMIT_AUTH = None,
      CLIENT_PORT = None, ALLOWED_ORIGINS = None, randomBytes_hex = ''00''\<rparr>
   \<and> authMiddleware
     \<lparr>MCP_PROXY_AUTH_TOKEN = Some ''abc'', DANGEROUSLY_OMIT_AUTH = None,
      CLIENT_PORT = None, ALLOWED_ORIGINS = None, randomBytes_hex = ''00''\<rparr>
     \<lparr>req_method = GET, req_path = ''/config'',
      req_headers = [(''x-mcp-proxy-auth'', Single ''Bearer abd'')]\<rparr>
     = Respond 401 unauthorized
   \<and> authMiddleware
     \<lparr>MCP_PROXY_AUTH_TOKEN = Some ''abc'', DANGEROUSLY_OMIT_AUTH = None,
      CLIENT_PORT = None, ALLOWED_ORIGINS = None, randomBytes_hex = ''00''\<rparr>
     \<lparr>req_method = GET, req_path = ''/config'',
      req_headers = [(''x-mcp-proxy-auth'', Single ''Bearer abc'')]\<rparr>
     = Next"
  using
    authMiddleware_unauthorized_iff
      [of "\<lparr>MCP_PROXY_AUTH_TOKEN = Some ''abc'', DANGEROUSLY_OMIT_AUTH = Some ''true'',
             CLIENT_PORT = None, ALLOWED_ORIGINS = None, randomBytes_hex = ''00''\<rparr>"
          "\<lparr>req_method = GET, req_path = ''/config'', req_headers = []\<rparr>"]
    authMiddleware_unauthorized_iff
      [of "\<lparr>MCP_PROXY_AUTH_TOKEN = Some ''abc'', DANGEROUSLY_OMIT_AUTH = None,
             CLIENT_PORT = None, ALLOWED_ORIGINS = None, randomBytes_hex = ''00''\<rparr>"
          "\<lparr>req_method = GET, req_path = ''/config'',
            req_headers = [(''x-mcp-proxy-auth'', Single ''Bearer abd'')]\<rparr>"]
    authMiddleware_unauthorized_iff
      [of "\<lparr>MCP_PROXY_AUTH_TOKEN = Some ''abc'', DANGEROUSLY_OMIT_AUTH = None,
             CLIENT_PORT = None, ALLOWED_ORIGINS = None, randomBytes_hex = ''00''\<rparr>"
          "\<lparr>req_method = GET, req_path = ''/config'',
            req_headers = [(''x-mcp-proxy-auth'', Single ''Bearer abc'')]\<rparr>"]
  by (simp add: authDisabled_def sessionToken_def bearer_credential_def authHeaderValue_def)


section \<open>The auth gate: where a request is rejected\<close>

lemma compare_every_byte_eq:
  "length a = length b \<Longrightarrow> compare_every_byte a b = (a = b, length a)"
  by (induction a b rule: list_induct2) auto

lemma constant_time_compare_fixed:
  "length a = length b \<Longrightarrow> constant_time_compare a b = Inr (a = b, length a)"
  by (simp add: constant_time_compare_def compare_every_byte_eq)

text \<open>With a comparison that gives the result of \<^verbatim>\<open>timingSafeEqual\<close>, the gate with
  cost leaves by the return statement that \<open>authMiddleware_exit\<close> names.\<close>

lemma authMiddleware_cost_exit:
  assumes "\<And>a b. length a = length b \<Longrightarrow> \<exists>c. compare a b = Inr (a = b, c)"
  shows "fst (authMiddleware_cost compare env req) = authMiddleware_exit env req"
proof (cases "authDisabled env")
  case True
  then show ?thesis
    by (simp add: authMiddleware_cost_def authMiddleware_exit_def)
next
  case False
  show ?thesis
  proof (cases "authHeaderValue req")
    case None
    with False show ?thesis
      by (simp add: authMiddleware_cost_def authMiddleware_exit_def)
  next
    case (Some v)
    show ?thesis
    proof (cases "length (Buffer_from (drop 7 v)) = length (Buffer_from (sessionToken env))")
      case True
      from assms [OF True] obtain c where
        "compare (Buffer_from (drop 7 v)) (Buffer_from (sessionToken env))
           = Inr (Buffer_from (drop 7 v) = Buffer_from (sessionToken env), c)"
        by blast
      with False Some True show ?thesis
        by (simp add: authMiddleware_cost_def authMiddleware_exit_def timingSafeEqual_def Let_def)
    next
      case False
      with \<open>\<not> authDisabled env\<close> Some show ?thesis
        by (simp add: authMiddleware_cost_def authMiddleware_exit_def Let_def)
    qed
  qed
qed

text \<open>
  The cost does tell the two comparisons apart. With the comparison that stops at the first
  differing byte, the secret \<^verbatim>\<open>abc\<close> rejects \<^verbatim>\<open>xbc\<close> after one byte and \<^verbatim>\<open>abx\<close>
  after three.
\<close>

lemma early_exit_compare_cost_depends_on_byte:
  "authMiddleware_cost early_exit_compare
     \<lparr>MCP_PROXY_AUTH_TOKEN = Some ''abc'', DANGEROUSLY_OMIT_AUTH = None,
      CLIENT_PORT = None, ALLOWED_ORIGINS = None, randomBytes_hex = ''00''\<rparr>
     \<lparr>req_method = GET, req_path = ''/config'',
      req_headers = [(''x-mcp-proxy-auth'', Single ''Bearer xbc'')]\<rparr>
     = (CompareFailed, 1)
   \<and> authMiddleware_cost early_exit_compare
     \<lparr>MCP_PROXY_AUTH_TOKEN = Some ''abc'', DANGEROUSLY_OMIT_AUTH = None,
      CLIENT_PORT = None, ALLOWED_ORIGINS = None, randomBytes_hex = ''00''\<rparr>
     \<lparr>req_method = GET, req_path = ''/config'',
      req_headers = [(''x-mcp-proxy-auth'', Single ''Bearer abx'')]\<rparr>
     = (CompareFailed, 3)"
  by (simp add: authMiddleware_cost_def authDisabled_def authHeaderValue_def sessionToken_def
        early_exit_compare_def)

text \<open>
  C3, as the claim states it, fails: a credential whose length differs from the secret's
  leaves the gate by the early return of the length check, before
  \<^verbatim>\<open>timingSafeEqual\<close> is called. Here the secret is \<^verbatim>\<open>abc\<close> and the credential
  \<^verbatim>\<open>ab\<close>.
\<close>

theorem authMiddleware_returns_on_length:
  "authMiddleware_exit
     \<lparr>MCP_PROXY_AUTH_TOKEN = Some ''abc'', DANGEROUSLY_OMIT_AUTH = None,
      CLIENT_PORT = None, ALLOWED_ORIGINS = None, randomBytes_hex = ''00''\<rparr>
     \<lparr>req_method = GET, req_path = ''/config'',
      req_headers = [(''x-mcp-proxy-auth'', Single ''Bearer ab'')]\<rparr>
   = LengthMismatch"
  by (simp add: authMiddleware_exit_def authDisabled_def authHeaderValue_def sessionToken_def)

text \<open>
  C3 (amended): the credential comparison does not short-circuit on the first differing
  byte before a fixed-cost comparison path. Where the comparison called has a cost fixed by
  the length of its buffers, as \<^verbatim>\<open>timingSafeEqual\<close> has, two credentials of one length
  that are both rejected cost the same, whichever byte of each first differs from the
  secret: a credential of the secret's length is compared whole at the fixed cost, and a
  credential of another length is rejected by the length check with nothing compared.
\<close>

theorem rejection_cost_independent_of_differing_byte:
  assumes fixed: "\<And>a b. length a = length b \<Longrightarrow> compare a b = Inr (a = b, cost (length a))"
    and enabled: "\<not> authDisabled env"
    and p: "authHeaderValue req = Some (''Bearer '' @ p)"
    and q: "authHeaderValue req' = Some (''Bearer '' @ q)"
    and same_length: "length (Buffer_from p) = length (Buffer_from q)"
    and p_wrong: "p \<noteq> sessionToken env"
    and q_wrong: "q \<noteq> sessionToken env"
  shows "authMiddleware_cost compare env req = authMiddleware_cost compare env req'
         \<and> authMiddleware_cost compare env req =
             (if length (Buffer_from p) = length (Buffer_from (sessionToken env))
              then (CompareFailed, cost (length (Buffer_from (sessionToken env))))
              else (LengthMismatch, 0))"
proof -
  have one: "authMiddleware_cost compare env r =
             (if length (Buffer_from c) = length (Buffer_from (sessionToken env))
              then (CompareFailed, cost (length (Buffer_from (sessionToken env))))
              else (LengthMismatch, 0))"
    if r: "authHeaderValue r = Some (''Bearer '' @ c)" and c: "c \<noteq> sessionToken env"
    for r c
  proof (cases "length (Buffer_from c) = length (Buffer_from (sessionToken env))")
    case True
    have "Buffer_from c \<noteq> Buffer_from (sessionToken env)"
      using c by (simp add: Buffer_from_eq_iff)
    with True fixed [OF True] enabled r show ?thesis
      by (simp add: authMiddleware_cost_def Let_def)
  next
    case False
    with enabled r show ?thesis
      by (simp add: authMiddleware_cost_def Let_def)
  qed
  from one [OF p p_wrong] one [OF q q_wrong] same_length show ?thesis
    by simp
qed

theorem rejection_cost_independent_of_differing_byte_witness:
  "\<not> authDisabled
       \<lparr>MCP_PROXY_AUTH_TOKEN = Some ''abc'', DANGEROUSLY_OMIT_AUTH = None,
        CLIENT_PORT = None, ALLOWED_ORIGINS = None, randomBytes_hex = ''00''\<rparr>
   \<and> length (Buffer_from ''xbc'') = length (Buffer_from ''abx'')
   \<and> authMiddleware_cost constant_time_compare
       \<lparr>MCP_PROXY_AUTH_TOKEN = Some ''abc'', DANGEROUSLY_OMIT_AUTH = None,
        CLIENT_PORT = None, ALLOWED_ORIGINS = None, randomBytes_hex = ''00''\<rparr>
       \<lparr>req_method = GET, req_path = ''/config'',
        req_headers = [(''x-mcp-proxy-auth'', Single ''Bearer xbc'')]\<rparr>
     = (CompareFailed, 3)
   \<and> authMiddleware_cost constant_time_compare
       \<lparr>MCP_PROXY_AUTH_TOKEN = Some ''abc'', DANGEROUSLY_OMIT_AUTH = None,
        CLIENT_PORT = None, ALLOWED_ORIGINS = None, randomBytes_hex = ''00''\<rparr>
       \<lparr>req_method = GET, req_path = ''/config'',
        req_headers = [(''x-mcp-proxy-auth'', Single ''Bearer abx'')]\<rparr>
     = (CompareFailed, 3)"
proof -
  let ?env = "\<lparr>MCP_PROXY_AUTH_TOKEN = Some ''abc'', DANGEROUSLY_OMIT_AUTH = None,
        CLIENT_PORT = None, ALLOWED_ORIGINS = None, randomBytes_hex = ''00''\<rparr>"
  let ?first = "\<lparr>req_method = GET, req_path = ''/config'',
        req_headers = [(''x-mcp-proxy-auth'', Single ''Bearer xbc'')]\<rparr>"
  let ?second = "\<lparr>req_method = GET, req_path = ''/config'',
        req_headers = [(''x-mcp-proxy-auth'', Single ''Bearer abx'')]\<rparr>"
  have f: "constant_time_compare a b = Inr (a = b, length a)"
    if "length a = length b" for a b
    using that by (rule constant_time_compare_fixed)
  have d: "\<not> authDisabled ?env"
    by (simp add: authDisabled_def)
  have p: "authHeaderValue ?first = Some (''Bearer '' @ ''xbc'')"
    by (simp add: authHeaderValue_def)
  have q: "authHeaderValue ?second = Some (''Bearer '' @ ''abx'')"
    by (simp add: authHeaderValue_def)
  have l: "length (Buffer_from ''xbc'') = length (Buffer_from ''abx'')"
    by simp
  have pw: "''xbc'' \<noteq> sessionToken ?env"
    by (simp add: sessionToken_def)
  have qw: "''abx'' \<noteq> sessionToken ?env"
    by (simp add: sessionToken_def)
  have t: "authMiddleware_cost constant_time_compare ?env ?first
             = authMiddleware_cost constant_time_compare ?env ?second
           \<and> authMiddleware_cost constant_time_compare ?env ?first =
               (if length (Buffer_from ''xbc'') = length (Buffer_from (sessionToken ?env))
                then (CompareFailed, length (Buffer_from (sessionToken ?env)))
                else (LengthMismatch, 0))"
    by (rule rejection_cost_independent_of_differing_byte
              [where cost = "\<lambda>n. n" and p = "''xbc''" and q = "''abx''"])
       (fact f d p q l pw qw)+
  have n: "length (Buffer_from (sessionToken ?env)) = 3"
    by (simp add: sessionToken_def)
  from t have "authMiddleware_cost constant_time_compare ?env ?first =
               (if length (Buffer_from ''xbc'') = length (Buffer_from (sessionToken ?env))
                then (CompareFailed, length (Buffer_from (sessionToken ?env)))
                else (LengthMismatch, 0))"
    by (rule conjunct2)
  then have first:
    "authMiddleware_cost constant_time_compare ?env ?first = (CompareFailed, 3)"
    by (simp add: n)
  from t have same: "authMiddleware_cost constant_time_compare ?env ?first
                       = authMiddleware_cost constant_time_compare ?env ?second"
    by (rule conjunct1)
  have second: "authMiddleware_cost constant_time_compare ?env ?second = (CompareFailed, 3)"
    by (rule trans [OF same [symmetric] first])
  from d l first second show ?thesis
    by (intro conjI)
qed


section \<open>Which routes run the checks\<close>

lemma routes_with_auth:
  "(m, p, chain) \<in> set routes \<Longrightarrow> Auth \<in> set chain \<Longrightarrow>
     chain = [OriginValidation, Auth, Handler] \<or> chain = [OriginValidation, Auth, ExpressJson, Handler]"
  unfolding routes_def by auto

lemma routes_health:
  "(GET, ''/health'', chain) \<in> set routes \<Longrightarrow> chain = [Handler]"
  unfolding routes_def by simp

lemma routes_without_origin:
  "(m, p, chain) \<in> set routes \<Longrightarrow>
   (m, p) \<noteq> (GET, ''/health'') \<Longrightarrow> (m, p) \<noteq> (GET, ''/logs/current'') \<Longrightarrow>
   (m, p) \<noteq> (GET, ''/logs/:filename'') \<Longrightarrow> take 1 chain = [OriginValidation]"
  unfolding routes_def by (simp, elim disjE) simp_all

lemma run_chain_checks:
  "m \<noteq> OriginValidation \<Longrightarrow> m \<noteq> Auth \<Longrightarrow>
   fst (run_chain env req (OriginValidation # Auth # m # ms)) =
     (if originValidationMiddleware env req = Next
      then [OriginValidation, Auth] else [OriginValidation])"
  by (cases m) (auto split: mw_result.splits)

text \<open>
  C4, as the claim states it, fails: \<^verbatim>\<open>GET /health\<close> is registered with its handler
  alone. A request from an origin that the origin check answers with 403 reaches the
  handler of \<^verbatim>\<open>/health\<close> with no check run.
\<close>

theorem health_skips_origin_check:
  "(GET, ''/health'', [Handler]) \<in> set routes
   \<and> originValidationMiddleware
        \<lparr>MCP_PROXY_AUTH_TOKEN = None, DANGEROUSLY_OMIT_AUTH = None, CLIENT_PORT = None,
         ALLOWED_ORIGINS = None, randomBytes_hex = ''00''\<rparr>
        \<lparr>req_method = GET, req_path = ''/health'',
         req_headers = [(''origin'', Single ''http://evil.example'')]\<rparr>
       = Respond 403 forbidden_origin
   \<and> run_chain
        \<lparr>MCP_PROXY_AUTH_TOKEN = None, DANGEROUSLY_OMIT_AUTH = None, CLIENT_PORT = None,
         ALLOWED_ORIGINS = None, randomBytes_hex = ''00''\<rparr>
        \<lparr>req_method = GET, req_path = ''/health'',
         req_headers = [(''origin'', Single ''http://evil.example'')]\<rparr>
        [Handler]
       = ([], Reached [Handler])"
  by (simp add: routes_def originValidationMiddleware_def allowedOrigins_def)

text \<open>
  C4 (amended): every route that applies the auth check applies the origin check
  immediately before it, as its first callback: on a request to such a route the origin
  check runs first, and the auth check runs only when the origin check let the request
  pass. Every route other than \<^verbatim>\<open>GET /health\<close>, \<^verbatim>\<open>GET /logs/current\<close> and
  \<^verbatim>\<open>GET /logs/:filename\<close> has the origin check as its first callback;
  \<^verbatim>\<open>GET /health\<close> applies neither check.
\<close>

theorem origin_check_before_auth:
  assumes "(m, p, chain) \<in> set routes"
  shows "(Auth \<in> set chain \<longrightarrow>
            take 2 chain = [OriginValidation, Auth]
            \<and> fst (run_chain env req chain) =
                (if originValidationMiddleware env req = Next
                 then [OriginValidation, Auth] else [OriginValidation]))
         \<and> ((m, p) \<notin> {(GET, ''/health''), (GET, ''/logs/current''), (GET, ''/logs/:filename'')}
              \<longrightarrow> take 1 chain = [OriginValidation])
         \<and> ((m, p) = (GET, ''/health'') \<longrightarrow> chain = [Handler])"
proof (intro conjI impI)
  assume a: "Auth \<in> set chain"
  from routes_with_auth [OF assms a]
  show "take 2 chain = [OriginValidation, Auth]"
    by (elim disjE) simp_all
  from routes_with_auth [OF assms a]
  show "fst (run_chain env req chain) =
          (if originValidationMiddleware env req = Next
           then [OriginValidation, Auth] else [OriginValidation])"
  proof (elim disjE)
    assume "chain = [OriginValidation, Auth, Handler]"
    moreover have "fst (run_chain env req [OriginValidation, Auth, Handler]) =
          (if originValidationMiddleware env req = Next
           then [OriginValidation, Auth] else [OriginValidation])"
      by (rule run_chain_checks) simp_all
    ultimately show ?thesis
      by (simp only:)
  next
    assume "chain = [OriginValidation, Auth, ExpressJson, Handler]"
    moreover have "fst (run_chain env req [OriginValidation, Auth, ExpressJson, Handler]) =
          (if originValidationMiddleware env req = Next
           then [OriginValidation, Auth] else [OriginValidation])"
      by (rule run_chain_checks) simp_all
    ultimately show ?thesis
      by (simp only:)
  qed
next
  assume n: "(m, p) \<notin> {(GET, ''/health''), (GET, ''/logs/current''), (GET, ''/logs/:filename'')}"
  have "(m, p) \<noteq> (GET, ''/health'')" "(m, p) \<noteq> (GET, ''/logs/current'')"
    "(m, p) \<noteq> (GET, ''/logs/:filename'')"
    using n by blast+
  then show "take 1 chain = [OriginValidation]"
    by (rule routes_without_origin [OF assms])
next
  assume "(m, p) = (GET, ''/health'')"
  then have "(GET, ''/health'', chain) \<in> set routes"
    using assms by simp
  then show "chain = [Handler]"
    by (rule routes_health)
qed

theorem origin_check_before_auth_witness:
  "(DELETE, ''/mcp'', [OriginValidation, Auth, Handler]) \<in> set routes
   \<and> Auth \<in> set [OriginValidation, Auth, Handler]
   \<and> fst (run_chain
        \<lparr>MCP_PROXY_AUTH_TOKEN = Some ''abc'', DANGEROUSLY_OMIT_AUTH = None, CLIENT_PORT = None,
         ALLOWED_ORIGINS = None, randomBytes_hex = ''00''\<rparr>
        \<lparr>req_method = DELETE, req_path = ''/mcp'',
         req_headers = [(''origin'', Single ''http://evil.example'')]\<rparr>
        [OriginValidation, Auth, Handler]) = [OriginValidation]
   \<and> (DELETE, ''/mcp'') \<notin> {(GET, ''/health''), (GET, ''/logs/current''), (GET, ''/logs/:filename'')}
   \<and> take 1 [OriginValidation, Auth, Handler] = [OriginValidation]"
proof -
  have r: "(DELETE, ''/mcp'', [OriginValidation, Auth, Handler]) \<in> set routes"
    by (simp add: routes_def)
  have o: "originValidationMiddleware
        \<lparr>MCP_PROXY_AUTH_TOKEN = Some ''abc'', DANGEROUSLY_OMIT_AUTH = None, CLIENT_PORT = None,
         ALLOWED_ORIGINS = None, randomBytes_hex = ''00''\<rparr>
        \<lparr>req_method = DELETE, req_path = ''/mcp'',
         req_headers = [(''origin'', Single ''http://evil.example'')]\<rparr> \<noteq> Next"
    by (simp add: originValidationMiddleware_def allowedOrigins_def)
  show ?thesis
    using r o
      origin_check_before_auth [OF r,
        of "\<lparr>MCP_PROXY_AUTH_TOKEN = Some ''abc'', DANGEROUSLY_OMIT_AUTH = None, CLIENT_PORT = None,
         ALLOWED_ORIGINS = None, randomBytes_hex = ''00''\<rparr>"
        "\<lparr>req_method = DELETE, req_path = ''/mcp'',
         req_headers = [(''origin'', Single ''http://evil.example'')]\<rparr>"]
    by simp
qed

section \<open>Classification of the error stream\<close>

lemma classify_table: "classify ops chunk = classify_by_table ops chunk"
  by (simp add: classify_def classify_by_table_def keyword_table_def signal_table_def Let_def)

text \<open>
  C6, as the claim states it, fails: a line that matches no keyword and no signal is not
  forwarded verbatim. The handler trims it; the indented line \<^verbatim>\<open>  hello world\<close> is sent
  as \<^verbatim>\<open>hello world\<close>.
\<close>

theorem stderr_default_not_verbatim:
  "snd (stderr_on_data ascii_builtins ''s1'' (1, SSEServerTransport) (2, StdioClientTransport)
          ''  hello world'' empty_registry)
     = [Send (1, SSEServerTransport)
          \<lparr>level = Info, logger = ''stdio'', message = ''hello world''\<rparr>]
   \<and> ''hello world'' \<noteq> ''  hello world''"
  by (simp add: stderr_on_data_def classify_def ascii_builtins_def ascii_toUpperCase_def
        ascii_toUpperCase_char_def ascii_trim_def is_space_def)

text \<open>
  C6 (amended): a chunk without the fatal-startup pattern yields one notification with
  logger \<^verbatim>\<open>stdio\<close>. Its level is that of the first of the keywords DEBUG, INFO, NOTICE,
  WARN, ERROR, CRITICAL, ALERT, EMERGENCY, in this order, that occurs in the upper-cased
  text of the chunk, and its message is then the trimmed text; with no keyword, the first
  of SIGINT, SIGHUP, SIGTERM that occurs there gives level emergency and the fixed text for
  that signal; with none of these the level is info and the message is the trimmed text.
  \<^verbatim>\<open>ERROR: boom\<close> gives error, \<^verbatim>\<open>SIGTERM received\<close> gives emergency with the
  replaced text, \<^verbatim>\<open>hello world\<close> gives info.
\<close>

theorem stderr_classification:
  "(\<not> includes_str chunk ''MODULE_NOT_FOUND'' \<longrightarrow>
      stderr_on_data ops i w t chunk s =
        (s, [Send w \<lparr>level = fst (classify_by_table ops chunk), logger = ''stdio'',
                     message = snd (classify_by_table ops chunk)\<rparr>]))
   \<and> (js_toUpperCase ops ''ERROR: boom'' = ''ERROR: BOOM''
        \<and> js_trim ops ''ERROR: boom'' = ''ERROR: boom'' \<longrightarrow>
      stderr_on_data ops i w t ''ERROR: boom'' s =
        (s, [Send w \<lparr>level = Error, logger = ''stdio'', message = ''ERROR: boom''\<rparr>]))
   \<and> (js_toUpperCase ops ''SIGTERM received'' = ''SIGTERM RECEIVED'' \<longrightarrow>
      stderr_on_data ops i w t ''SIGTERM received'' s =
        (s, [Send w \<lparr>level = Emergency, logger = ''stdio'',
                     message = ''SIGTERM received. Server shutdown.''\<rparr>]))
   \<and> (js_toUpperCase ops ''hello world'' = ''HELLO WORLD''
        \<and> js_trim ops ''hello world'' = ''hello world'' \<longrightarrow>
      stderr_on_data ops i w t ''hello world'' s =
        (s, [Send w \<lparr>level = Info, logger = ''stdio'', message = ''hello world''\<rparr>]))"
proof (intro conjI impI)
  assume "\<not> includes_str chunk ''MODULE_NOT_FOUND''"
  then show "stderr_on_data ops i w t chunk s =
        (s, [Send w \<lparr>level = fst (classify_by_table ops chunk), logger = ''stdio'',
                     message = snd (classify_by_table ops chunk)\<rparr>])"
    by (simp add: stderr_on_data_def classify_table split: prod.splits)
next
  assume "js_toUpperCase ops ''ERROR: boom'' = ''ERROR: BOOM''
        \<and> js_trim ops ''ERROR: boom'' = ''ERROR: boom''"
  then show "stderr_on_data ops i w t ''ERROR: boom'' s =
        (s, [Send w \<lparr>level = Error, logger = ''stdio'', message = ''ERROR: boom''\<rparr>])"
    by (simp add: stderr_on_data_def classify_def)
next
  assume "js_toUpperCase ops ''SIGTERM received'' = ''SIGTERM RECEIVED''"
  then show "stderr_on_data ops i w t ''SIGTERM received'' s =
        (s, [Send w \<lparr>level = Emergency, logger = ''stdio'',
                     message = ''SIGTERM received. Server shutdown.''\<rparr>])"
    by (simp add: stderr_on_data_def classify_def)
next
  assume "js_toUpperCase ops ''hello world'' = ''HELLO WORLD''
        \<and> js_trim ops ''hello world'' = ''hello world''"
  then show "stderr_on_data ops i w t ''hello world'' s =
        (s, [Send w \<lparr>level = Info, logger = ''stdio'', message = ''hello world''\<rparr>])"
    by (simp add: stderr_on_data_def classify_def)
qed

theorem stderr_classification_witness:
  "\<not> includes_str (''  Warn: low disk, debug me not '' @ [CHR 0x0A]) ''MODULE_NOT_FOUND''
   \<and> stderr_on_data ascii_builtins ''s1'' (1, SSEServerTransport) (2, StdioClientTransport)
        (''  Warn: low disk, debug me not '' @ [CHR 0x0A]) empty_registry
      = (empty_registry,
         [Send (1, SSEServerTransport)
            \<lparr>level = Debug, logger = ''stdio'', message = ''Warn: low disk, debug me not''\<rparr>])
   \<and> js_toUpperCase ascii_builtins ''ERROR: boom'' = ''ERROR: BOOM''
   \<and> js_trim ascii_builtins ''ERROR: boom'' = ''ERROR: boom''
   \<and> stderr_on_data ascii_builtins ''s1'' (1, SSEServerTransport) (2, StdioClientTransport)
        ''ERROR: boom'' empty_registry
      = (empty_registry,
         [Send (1, SSEServerTransport)
            \<lparr>level = Error, logger = ''stdio'', message = ''ERROR: boom''\<rparr>])"
proof -
  have n: "\<not> includes_str (''  Warn: low disk, debug me not '' @ [CHR 0x0A]) ''MODULE_NOT_FOUND''"
    by simp
  have c: "classify_by_table ascii_builtins (''  Warn: low disk, debug me not '' @ [CHR 0x0A])
             = (Debug, ''Warn: low disk, debug me not'')"
    by (simp add: classify_by_table_def keyword_table_def ascii_builtins_def
          ascii_toUpperCase_def ascii_toUpperCase_char_def ascii_trim_def is_space_def)
  have u: "js_toUpperCase ascii_builtins ''ERROR: boom'' = ''ERROR: BOOM''"
    by (simp add: ascii_builtins_def ascii_toUpperCase_def ascii_toUpperCase_char_def)
  have r: "js_trim ascii_builtins ''ERROR: boom'' = ''ERROR: boom''"
    by (simp add: ascii_builtins_def ascii_trim_def is_space_def)
  show ?thesis
    using n c u r
      stderr_classification [of "''  Warn: low disk, debug me not '' @ [CHR 0x0A]"
        ascii_builtins "''s1''" "(1, SSEServerTransport)" "(2, StdioClientTransport)"
        empty_registry]
    by simp
qed


section \<open>Fatal start-up of a stdio session\<close>

text \<open>
  C9: on a chunk that contains the fatal-startup pattern the handler sends an
  emergency notification on the web-facing transport, closes the web-facing and the
  upstream transport, and removes the session id from the three tables; it relays nothing
  else.
\<close>

theorem stderr_fatal_teardown:
  assumes "includes_str chunk ''MODULE_NOT_FOUND''"
  shows "stderr_on_data ops i w t chunk s =
           (delete_all i s,
            [Send w \<lparr>level = Emergency, logger = ''proxy'',
                     message = ''Command not found, transports removed''\<rparr>,
             Close w, Close t])
         \<and> i \<notin> dom (webAppTransports (delete_all i s))
         \<and> i \<notin> dom (serverTransports (delete_all i s))
         \<and> i \<notin> dom (sessionHeaderHolders (delete_all i s))"
  using assms by (simp add: stderr_on_data_def delete_all_def)

theorem stderr_fatal_teardown_witness:
  "includes_str ''Error: Cannot find module x; code: MODULE_NOT_FOUND'' ''MODULE_NOT_FOUND''
   \<and> snd (stderr_on_data ascii_builtins ''s1'' (1, SSEServerTransport) (2, StdioClientTransport)
        ''Error: Cannot find module x; code: MODULE_NOT_FOUND''
        (stdio_register ''s1'' (1, SSEServerTransport) (2, StdioClientTransport) empty_registry))
      = [Send (1, SSEServerTransport)
           \<lparr>level = Emergency, logger = ''proxy'',
            message = ''Command not found, transports removed''\<rparr>,
         Close (1, SSEServerTransport), Close (2, StdioClientTransport)]
   \<and> ''s1'' \<in> dom (webAppTransports
        (stdio_register ''s1'' (1, SSEServerTransport) (2, StdioClientTransport) empty_registry))
   \<and> ''s1'' \<notin> dom (webAppTransports (fst (stderr_on_data ascii_builtins ''s1''
        (1, SSEServerTransport) (2, StdioClientTransport)
        ''Error: Cannot find module x; code: MODULE_NOT_FOUND''
        (stdio_register ''s1'' (1, SSEServerTransport) (2, StdioClientTransport) empty_registry))))"
proof -
  have n: "includes_str ''Error: Cannot find module x; code: MODULE_NOT_FOUND'' ''MODULE_NOT_FOUND''"
    by simp
  show ?thesis
    using n
      stderr_fatal_teardown [OF n, of ascii_builtins "''s1''" "(1, SSEServerTransport)"
        "(2, StdioClientTransport)"
        "stdio_register ''s1'' (1, SSEServerTransport) (2, StdioClientTransport) empty_registry"]
    by (simp add: stdio_register_def empty_registry_def)
qed


section \<open>Ids in the tables\<close>

lemma mcp_delete_registry:
  "fst (mcp_delete req terminated s) = s
   \<or> (\<exists>i. fst (mcp_delete req terminated s) = delete_all i s)"
  by (auto simp: mcp_delete_def split: option.splits hval.splits)

lemma stderr_on_data_registry:
  "fst (stderr_on_data ops i w t chunk s) = s
   \<or> fst (stderr_on_data ops i w t chunk s) = delete_all i s"
  by (auto simp: stderr_on_data_def split: prod.splits)

lemma createTransport_holder:
  "createTransport ty r hs = Some (t, h) \<Longrightarrow>
     (h \<noteq> None) = (snd t = SSEClientTransport \<or> snd t = StreamableHTTPClientTransport)"
  by (auto simp: createTransport_def split: if_splits)

lemma registered_together_delete_all:
  "\<forall>j. registered_together s b j \<Longrightarrow> registered_together (delete_all i s) b j"
  by (auto simp: registered_together_def delete_all_def carries_header_bag_def)

lemma registered_together_stdio_register:
  "\<forall>j. registered_together s b j \<Longrightarrow>
     registered_together (stdio_register i w t s) (b(i := True)) j"
  by (auto simp: registered_together_def stdio_register_def carries_header_bag_def)

lemma registered_together_sse_register:
  "\<forall>j. registered_together s b j \<Longrightarrow>
   (h \<noteq> None) = (snd t = SSEClientTransport \<or> snd t = StreamableHTTPClientTransport) \<Longrightarrow>
     registered_together (sse_register i w t h s) (b(i := False)) j"
  by (cases h) (auto simp: registered_together_def sse_register_def carries_header_bag_def)

lemma registered_together_onsessioninitialized:
  "\<forall>j. registered_together s b j \<Longrightarrow>
   (h \<noteq> None) = (snd t = SSEClientTransport \<or> snd t = StreamableHTTPClientTransport) \<Longrightarrow>
     registered_together (onsessioninitialized i w t h s) (b(i := False)) j"
  by (cases h) (auto simp: registered_together_def onsessioninitialized_def carries_header_bag_def)

lemma registered_together_update:
  "registered_together s b j \<Longrightarrow>
     registered_together (update_session_headers i new s) b j"
  by (cases "sessionHeaderHolders s i")
     (auto simp: registered_together_def update_session_headers_def carries_header_bag_def)

lemma registered_together_step:
  assumes "\<forall>j. registered_together s b j"
  shows "registered_together (apply_event ops e s) (stdio_step e b) j"
proof (cases e)
  case (Stdio_connect i w ty r hs)
  show ?thesis
  proof (cases "createTransport ty r hs")
    case None
    with Stdio_connect assms show ?thesis by simp
  next
    case (Some c)
    obtain t h where "c = (t, h)" by (cases c)
    with Some Stdio_connect show ?thesis
      using registered_together_stdio_register [OF assms, of i w t j] by simp
  qed
next
  case (Sse_connect i w ty r hs)
  show ?thesis
  proof (cases "createTransport ty r hs")
    case None
    with Sse_connect assms show ?thesis by simp
  next
    case (Some c)
    obtain t h where c: "c = (t, h)" by (cases c)
    from Some c have "createTransport ty r hs = Some (t, h)" by simp
    from registered_together_sse_register [OF assms createTransport_holder [OF this], of i w j]
    show ?thesis
      using Some c Sse_connect by simp
  qed
next
  case (Mcp_session_initialized i w ty r hs)
  show ?thesis
  proof (cases "createTransport ty r hs")
    case None
    with Mcp_session_initialized assms show ?thesis by simp
  next
    case (Some c)
    obtain t h where c: "c = (t, h)" by (cases c)
    from Some c have "createTransport ty r hs = Some (t, h)" by simp
    from registered_together_onsessioninitialized
           [OF assms createTransport_holder [OF this], of i w j]
    show ?thesis
      using Some c Mcp_session_initialized by simp
  qed
next
  case (Mcp_session_closed i)
  then show ?thesis
    using assms by (simp add: onsessionclosed_def registered_together_delete_all)
next
  case (Mcp_delete req terminated)
  then show ?thesis
    using assms mcp_delete_registry [of req terminated s]
    by (auto simp: registered_together_delete_all)
next
  case (Stderr_data i w t chunk)
  then show ?thesis
    using assms stderr_on_data_registry [of ops i w t chunk s]
    by (auto simp: registered_together_delete_all)
next
  case (Headers_update i new)
  then show ?thesis
    using assms by (simp add: registered_together_update)
qed

lemma registered_together_fold:
  "\<forall>j. registered_together s b j \<Longrightarrow>
     registered_together (fold (apply_event ops) evs s) (fold stdio_step evs b) j"
proof (induction evs arbitrary: s b j)
  case Nil
  then show ?case by simp
next
  case (Cons e evs)
  have "\<forall>j. registered_together (apply_event ops e s) (stdio_step e b) j"
    using Cons.prems by (simp add: registered_together_step)
  then show ?case
    using Cons.IH by simp
qed

text \<open>
  C7, as the claim states it, fails: \<^verbatim>\<open>GET /stdio\<close> with \<^verbatim>\<open>transportType=sse\<close> in the
  query registers, in the two transport tables only, a session whose upstream transport
  \<^verbatim>\<open>createTransport\<close> built around a header holder. The id is in a proper subset of
  the tables that apply to it.
\<close>

theorem stdio_route_leaves_holder_unregistered:
  "''z'' \<in> dom (webAppTransports
      (run ascii_builtins [Stdio_connect ''z'' (1, SSEServerTransport) ''sse'' 2 Map.empty]))
   \<and> ''z'' \<in> dom (serverTransports
      (run ascii_builtins [Stdio_connect ''z'' (1, SSEServerTransport) ''sse'' 2 Map.empty]))
   \<and> carries_header_bag
      (run ascii_builtins [Stdio_connect ''z'' (1, SSEServerTransport) ''sse'' 2 Map.empty]) ''z''
   \<and> ''z'' \<notin> dom (sessionHeaderHolders
      (run ascii_builtins [Stdio_connect ''z'' (1, SSEServerTransport) ''sse'' 2 Map.empty]))"
  by (simp add: run_def createTransport_def stdio_register_def empty_registry_def
        carries_header_bag_def)

text \<open>
  C7 (amended): after every history of table updates, every session id is in the
  web-facing table and in the upstream table together, and in the holder table too when
  its session carries a header bag and was opened by \<^verbatim>\<open>GET /sse\<close> or \<^verbatim>\<open>POST /mcp\<close>,
  or it is in none of the three tables.
\<close>

theorem sessions_registered_together:
  "registered_together (run ops evs) (opened_by_stdio evs) i"
  unfolding run_def opened_by_stdio_def
  by (rule registered_together_fold)
     (simp add: registered_together_def empty_registry_def)

theorem sessions_registered_together_witness:
  "registered_together
     (run ascii_builtins
        [Sse_connect ''a'' (1, SSEServerTransport) ''sse'' 2 Map.empty,
         Stdio_connect ''b'' (3, SSEServerTransport) ''stdio'' 4 Map.empty,
         Stderr_data ''b'' (3, SSEServerTransport) (4, StdioClientTransport) ''MODULE_NOT_FOUND''])
     (opened_by_stdio
        [Sse_connect ''a'' (1, SSEServerTransport) ''sse'' 2 Map.empty,
         Stdio_connect ''b'' (3, SSEServerTransport) ''stdio'' 4 Map.empty,
         Stderr_data ''b'' (3, SSEServerTransport) (4, StdioClientTransport) ''MODULE_NOT_FOUND''])
     ''a''
   \<and> carries_header_bag
     (run ascii_builtins
        [Sse_connect ''a'' (1, SSEServerTransport) ''sse'' 2 Map.empty,
         Stdio_connect ''b'' (3, SSEServerTransport) ''stdio'' 4 Map.empty,
         Stderr_data ''b'' (3, SSEServerTransport) (4, StdioClientTransport) ''MODULE_NOT_FOUND''])
     ''a''
   \<and> \<not> opened_by_stdio
        [Sse_connect ''a'' (1, SSEServerTransport) ''sse'' 2 Map.empty,
         Stdio_connect ''b'' (3, SSEServerTransport) ''stdio'' 4 Map.empty,
         Stderr_data ''b'' (3, SSEServerTransport) (4, StdioClientTransport) ''MODULE_NOT_FOUND'']
        ''a''
   \<and> ''a'' \<in> dom (sessionHeaderHolders
     (run ascii_builtins
        [Sse_connect ''a'' (1, SSEServerTransport) ''sse'' 2 Map.empty,
         Stdio_connect ''b'' (3, SSEServerTransport) ''stdio'' 4 Map.empty,
         Stderr_data ''b'' (3, SSEServerTransport) (4, StdioClientTransport) ''MODULE_NOT_FOUND'']))
   \<and> ''b'' \<notin> dom (webAppTransports
     (run ascii_builtins
        [Sse_connect ''a'' (1, SSEServerTransport) ''sse'' 2 Map.empty,
         Stdio_connect ''b'' (3, SSEServerTransport) ''stdio'' 4 Map.empty,
         Stderr_data ''b'' (3, SSEServerTransport) (4, StdioClientTransport) ''MODULE_NOT_FOUND'']))"
  using sessions_registered_together
    [of ascii_builtins
        "[Sse_connect ''a'' (1, SSEServerTransport) ''sse'' 2 Map.empty,
         Stdio_connect ''b'' (3, SSEServerTransport) ''stdio'' 4 Map.empty,
         Stderr_data ''b'' (3, SSEServerTransport) (4, StdioClientTransport) ''MODULE_NOT_FOUND'']"
        "''a''"]
  by (simp add: run_def opened_by_stdio_def empty_registry_def createTransport_def
        sse_register_def stdio_register_def stderr_on_data_def delete_all_def
        carries_header_bag_def)


section \<open>Terminating a session\<close>

text \<open>
  C8, as the claim states it, fails: \<^verbatim>\<open>DELETE /mcp\<close> on a registered session asks the
  upstream transport to terminate its session and answers 200; it closes neither of the
  session's transports.
\<close>

theorem mcp_delete_closes_no_transport:
  "snd (mcp_delete
          \<lparr>req_method = DELETE, req_path = ''/mcp'',
           req_headers = [(''mcp-session-id'', Single ''s1'')]\<rparr>
          True
          (onsessioninitialized ''s1'' (1, StreamableHTTPServerTransport)
             (2, StreamableHTTPClientTransport) None empty_registry))
     = [TerminateSession (2, StreamableHTTPClientTransport), Reply 200 NoBody]"
  by (simp add: mcp_delete_def onsessioninitialized_def empty_registry_def)

text \<open>
  C8 (amended): for a registered streamable-HTTP session whose upstream termination
  succeeds, \<^verbatim>\<open>DELETE /mcp\<close> removes the id from every tracking table and calls
  \<^verbatim>\<open>terminateSession\<close> on the upstream transport, closing neither transport. A second
  \<^verbatim>\<open>DELETE\<close> for the same id changes no table, touches no transport and does not raise;
  it is answered 404.
\<close>

theorem mcp_delete_removes_once:
  assumes "map_of (req_headers req) ''mcp-session-id'' = Some (Single i)"
    and "i \<noteq> []"
    and "serverTransports s i = Some t"
    and "snd t = StreamableHTTPClientTransport"
  shows "mcp_delete req True s = (delete_all i s, [TerminateSession t, Reply 200 NoBody])
         \<and> i \<notin> dom (webAppTransports (delete_all i s))
         \<and> i \<notin> dom (serverTransports (delete_all i s))
         \<and> i \<notin> dom (sessionHeaderHolders (delete_all i s))
         \<and> mcp_delete req terminated (delete_all i s) =
             (delete_all i s,
              [Reply 404 (Text (''Transport not found for sessionId '' @ i)), Reply 200 NoBody])
         \<and> response (snd (mcp_delete req terminated (delete_all i s))) =
             Some (404, Text (''Transport not found for sessionId '' @ i))"
  using assms by (simp add: mcp_delete_def delete_all_def)

theorem mcp_delete_removes_once_witness:
  "serverTransports
     (onsessioninitialized ''s1'' (1, StreamableHTTPServerTransport)
        (2, StreamableHTTPClientTransport) (Some Map.empty) empty_registry) ''s1''
     = Some (2, StreamableHTTPClientTransport)
   \<and> ''s1'' \<in> dom (sessionHeaderHolders
     (onsessioninitialized ''s1'' (1, StreamableHTTPServerTransport)
        (2, StreamableHTTPClientTransport) (Some Map.empty) empty_registry))
   \<and> ''s1'' \<notin> dom (sessionHeaderHolders (fst (mcp_delete
        \<lparr>req_method = DELETE, req_path = ''/mcp'',
         req_headers = [(''mcp-session-id'', Single ''s1'')]\<rparr>
        True
        (onsessioninitialized ''s1'' (1, StreamableHTTPServerTransport)
           (2, StreamableHTTPClientTransport) (Some Map.empty) empty_registry))))
   \<and> snd (mcp_delete
        \<lparr>req_method = DELETE, req_path = ''/mcp'',
         req_headers = [(''mcp-session-id'', Single ''s1'')]\<rparr>
        True
        (fst (mcp_delete
        \<lparr>req_method = DELETE, req_path = ''/mcp'',
         req_headers = [(''mcp-session-id'', Single ''s1'')]\<rparr>
        True
        (onsessioninitialized ''s1'' (1, StreamableHTTPServerTransport)
           (2, StreamableHTTPClientTransport) (Some Map.empty) empty_registry))))
      = [Reply 404 (Text ''Transport not found for sessionId s1''), Reply 200 NoBody]"
proof -
  have h: "map_of (req_headers \<lparr>req_method = DELETE, req_path = ''/mcp'',
         req_headers = [(''mcp-session-id'', Single ''s1'')]\<rparr>) ''mcp-session-id''
       = Some (Single ''s1'')"
    by simp
  have n: "''s1'' \<noteq> []"
    by simp
  have t: "serverTransports
     (onsessioninitialized ''s1'' (1, StreamableHTTPServerTransport)
        (2, StreamableHTTPClientTransport) (Some Map.empty) empty_registry) ''s1''
     = Some (2, StreamableHTTPClientTransport)"
    by (simp add: onsessioninitialized_def empty_registry_def)
  have k: "snd (2::nat, StreamableHTTPClientTransport) = StreamableHTTPClientTransport"
    by simp
  have b: "''s1'' \<in> dom (sessionHeaderHolders
     (onsessioninitialized ''s1'' (1, StreamableHTTPServerTransport)
        (2, StreamableHTTPClientTransport) (Some Map.empty) empty_registry))"
    by (simp add: onsessioninitialized_def empty_registry_def)
  show ?thesis
    using t b mcp_delete_removes_once [OF h n t k, of True]
    by simp
qed


section \<open>A termination request without a session id\<close>

text \<open>
  C10: a \<^verbatim>\<open>DELETE /mcp\<close> request that passes the origin check and the auth check and
  has no \<^verbatim>\<open>mcp-session-id\<close> header changes no table, calls nothing on any transport and
  writes no response.
\<close>

theorem mcp_delete_without_session_id:
  assumes "originValidationMiddleware env req = Next"
    and "authMiddleware env req = Next"
    and "map_of (req_headers req) ''mcp-session-id'' = None"
  shows "route_mcp_delete env req terminated s = (s, [])
         \<and> response (snd (route_mcp_delete env req terminated s)) = None"
  using assms by (simp add: route_mcp_delete_def mcp_delete_def)

theorem mcp_delete_without_session_id_witness:
  "originValidationMiddleware
     \<lparr>MCP_PROXY_AUTH_TOKEN = Some ''abc'', DANGEROUSLY_OMIT_AUTH = None,
      CLIENT_PORT = None, ALLOWED_ORIGINS = None, randomBytes_hex = ''00''\<rparr>
     \<lparr>req_method = DELETE, req_path = ''/mcp'',
      req_headers = [(''origin'', Single ''http://localhost:6274''),
                     (''x-mcp-proxy-auth'', Single ''Bearer abc'')]\<rparr> = Next
   \<and> authMiddleware
     \<lparr>MCP_PROXY_AUTH_TOKEN = Some ''abc'', DANGEROUSLY_OMIT_AUTH = None,
      CLIENT_PORT = None, ALLOWED_ORIGINS = None, randomBytes_hex = ''00''\<rparr>
     \<lparr>req_method = DELETE, req_path = ''/mcp'',
      req_headers = [(''origin'', Single ''http://localhost:6274''),
                     (''x-mcp-proxy-auth'', Single ''Bearer abc'')]\<rparr> = Next
   \<and> route_mcp_delete
     \<lparr>MCP_PROXY_AUTH_TOKEN = Some ''abc'', DANGEROUSLY_OMIT_AUTH = None,
      CLIENT_PORT = None, ALLOWED_ORIGINS = None, randomBytes_hex = ''00''\<rparr>
     \<lparr>req_method = DELETE, req_path = ''/mcp'',
      req_headers = [(''origin'', Single ''http://localhost:6274''),
                     (''x-mcp-proxy-auth'', Single ''Bearer abc'')]\<rparr>
     True
     (onsessioninitialized ''s1'' (1, StreamableHTTPServerTransport)
        (2, StreamableHTTPClientTransport) None empty_registry)
     = (onsessioninitialized ''s1'' (1, StreamableHTTPServerTransport)
        (2, StreamableHTTPClientTransport) None empty_registry, [])"
proof -
  have o: "originValidationMiddleware
     \<lparr>MCP_PROXY_AUTH_TOKEN = Some ''abc'', DANGEROUSLY_OMIT_AUTH = None,
      CLIENT_PORT = None, ALLOWED_ORIGINS = None, randomBytes_hex = ''00''\<rparr>
     \<lparr>req_method = DELETE, req_path = ''/mcp'',
      req_headers = [(''origin'', Single ''http://localhost:6274''),
                     (''x-mcp-proxy-auth'', Single ''Bearer abc'')]\<rparr> = Next"
    by (simp add: originValidationMiddleware_def allowedOrigins_def)
  have a: "authMiddleware
     \<lparr>MCP_PROXY_AUTH_TOKEN = Some ''abc'', DANGEROUSLY_OMIT_AUTH = None,
      CLIENT_PORT = None, ALLOWED_ORIGINS = None, randomBytes_hex = ''00''\<rparr>
     \<lparr>req_method = DELETE, req_path = ''/mcp'',
      req_headers = [(''origin'', Single ''http://localhost:6274''),
                     (''x-mcp-proxy-auth'', Single ''Bearer abc'')]\<rparr> = Next"
    by (simp add: authMiddleware_def authMiddleware_exit_def authDisabled_def
          authHeaderValue_def sessionToken_def timingSafeEqual_def)
  have h: "map_of (req_headers
     \<lparr>req_method = DELETE, req_path = ''/mcp'',
      req_headers = [(''origin'', Single ''http://localhost:6274''),
                     (''x-mcp-proxy-auth'', Single ''Bearer abc'')]\<rparr>) ''mcp-session-id'' = None"
    by simp
  show ?thesis
    using o a mcp_delete_without_session_id [OF o a h]
    by simp
qed


end
